theory Spec2Isabelle
  imports Complex_Main
begin

section \<open>The climate entity of the OmniLogic heater (climate.py)\<close>

subsection \<open>Values of the host application and of the device library\<close>

text \<open>
  The enumerations of the host's climate component. Both have a member \<open>OFF\<close>; the
  qualified names \<open>HVACMode.OFF\<close> and \<open>HVACAction.OFF\<close> are used throughout, as the
  source writes them.
\<close>

datatype HVACMode = OFF | HEAT | COOL | HEAT_COOL | AUTO | DRY | FAN_ONLY

datatype HVACAction = COOLING | DEFROSTING | DRYING | FAN | HEATING | IDLE | OFF | PREHEATING

text \<open>
  \<open>UnitOfTemperature\<close>: the source returns \<open>str(UnitOfTemperature.CELSIUS)\<close>, a string
  with a degree sign; the member stands for that string here.
\<close>

datatype UnitOfTemperature = CELSIUS | FAHRENHEIT

definition STATE_ON :: string where
  "STATE_ON = ''on''"

definition STATE_OFF :: string where
  "STATE_OFF = ''off''"

definition ATTR_TEMPERATURE :: string where
  "ATTR_TEMPERATURE = ''temperature''"

text \<open>The exceptions the modelled code can raise. \<open>External\<close> is whatever the
  command API of the device library raises; this file neither catches nor translates it.\<close>

datatype error = KeyError | AttributeError | ValueError | OverflowError | External string

text \<open>
  A Python float is a finite binary fraction, hence a rational, or one of the three
  special values. \<open>int()\<close> is exact on it, so no rounding of floating-point
  arithmetic enters the model.
\<close>

datatype pyfloat = Finite rat | PosInf | NegInf | NaN

text \<open>The numbers the host passes as a temperature.\<close>

datatype pynum = PInt int | PFloat pyfloat

text \<open>Python's \<open>int(x)\<close>: the identity on an int, truncation towards zero on a finite
  float, OverflowError on an infinity and ValueError on a NaN.\<close>

definition truncate_rat :: "rat \<Rightarrow> int" where
  "truncate_rat q = (if 0 \<le> q then \<lfloor>q\<rfloor> else \<lceil>q\<rceil>)"

fun py_int :: "pynum \<Rightarrow> error + int" where
  "py_int (PInt n) = Inr n"
| "py_int (PFloat (Finite q)) = Inr (truncate_rat q)"
| "py_int (PFloat PosInf) = Inl OverflowError"
| "py_int (PFloat NegInf) = Inl OverflowError"
| "py_int (PFloat NaN) = Inl ValueError"

text \<open>Python's \<open>str.lower()\<close> on the ASCII letters; names are taken to be ASCII.\<close>

definition lower_char :: "char \<Rightarrow> char" where
  "lower_char c =
     (let n = (of_char c :: nat) in if 65 \<le> n \<and> n \<le> 90 then char_of (n + 32) else c)"

definition lower :: "string \<Rightarrow> string" where
  "lower s = map lower_char s"

subsection \<open>The device state tree\<close>

text \<open>
  The records of the device library that the entity reads, with the fields it reads.
  The state of a piece of heating equipment is an enumeration of the library; its
  \<open>pretty()\<close> method is a parameter of the one function that calls it.
\<close>

record MSPVirtualHeater =
  min_temp :: int
  max_temp :: int
  solar_set_point :: int

record TelemetryVirtualHeater =
  current_set_point :: int
  enabled :: bool

datatype HeaterState = HeaterState int

record MSPHeaterEquip =
  equip_name :: string
  equip_enabled :: bool
  equip_bow_id :: int

record TelemetryHeater =
  state :: HeaterState
  temp :: int

record TelemetryBoW =
  water_temp :: int

text \<open>
  An entry of \<open>coordinator.data\<close> has a configuration and a telemetry; which attributes
  they have depends on the kind of device. Reading an attribute that the object does
  not have raises AttributeError.
\<close>

datatype msp_config_t =
    VirtualHeaterConfig MSPVirtualHeater
  | HeaterEquipConfig MSPHeaterEquip
  | OtherConfig

datatype telemetry_t =
    VirtualHeaterTelemetry TelemetryVirtualHeater
  | HeaterTelemetry TelemetryHeater
  | BoWTelemetry TelemetryBoW
  | OtherTelemetry

record EntityIndexData =
  msp_config :: msp_config_t
  telemetry :: telemetry_t

subsection \<open>The entity, its collaborators, and the effects on them\<close>

datatype api_call =
    Set_heater int int int UnitOfTemperature
  | Set_heater_enable int int bool

datatype log_record = Log_error string HVACMode

text \<open>The values of the extended attributes: \<open>str | int\<close>, and \<open>bool\<close> for a flag.\<close>

datatype attr_value = AStr string | AInt int | ABool bool

type_synonym attributes = "string \<rightharpoonup> attr_value"

text \<open>
  One state for everything a method of the entity can read or change:
  \<^item> \<open>coordinator_data\<close> is the shared tree \<open>self.coordinator.data\<close>, from system id
    to entry; \<open>system_units\<close> is the \<open>units\<close> of the system configuration;
  \<^item> \<open>system_id\<close>, \<open>bow_id\<close>, \<open>heater_equipment_ids\<close> and \<open>hvac_mode_attr\<close> (the
    attribute \<open>self._hvac_mode\<close>, absent until first assigned) are the adapter's fields;
  \<^item> \<open>api_calls\<close>, \<open>log_records\<close> and \<open>ha_state_writes\<close> record, in order, the calls
    sent to the command API, the records given to the logger and the number of
    \<open>async_write_ha_state\<close> requests.
\<close>

record entity =
  coordinator_data :: "int \<rightharpoonup> EntityIndexData"
  system_units :: string
  system_id :: int
  bow_id :: int
  heater_equipment_ids :: "int list"
  hvac_mode_attr :: "HVACMode option"
  api_calls :: "api_call list"
  log_records :: "log_record list"
  ha_state_writes :: nat

text \<open>
  A method takes the state and returns its result, a value or the exception raised,
  with the state it leaves behind. An exception keeps the writes made before it.
\<close>

type_synonym 'a action = "entity \<Rightarrow> (error + 'a) \<times> entity"

definition ret :: "'a \<Rightarrow> 'a action" where
  "ret x = (\<lambda>s. (Inr x, s))"

definition raise :: "error \<Rightarrow> 'a action" where
  "raise e = (\<lambda>s. (Inl e, s))"

definition and_then :: "'a action \<Rightarrow> ('a \<Rightarrow> 'b action) \<Rightarrow> 'b action" where
  "and_then m f = (\<lambda>s. case m s of (Inl e, s') \<Rightarrow> (Inl e, s') | (Inr x, s') \<Rightarrow> f x s')"

definition gets :: "(entity \<Rightarrow> 'a) \<Rightarrow> 'a action" where
  "gets f = (\<lambda>s. (Inr (f s), s))"

definition modify :: "(entity \<Rightarrow> entity) \<Rightarrow> unit action" where
  "modify f = (\<lambda>s. (Inr (), f s))"

definition lift :: "error + 'a \<Rightarrow> 'a action" where
  "lift r = (case r of Inl e \<Rightarrow> raise e | Inr x \<Rightarrow> ret x)"

text \<open>\<open>d[k]\<close> on a dict.\<close>

definition subscript :: "('k \<rightharpoonup> 'v) \<Rightarrow> 'k \<Rightarrow> error + 'v" where
  "subscript d k = (case d k of None \<Rightarrow> Inl KeyError | Some v \<Rightarrow> Inr v)"

text \<open>Attribute reads through \<open>.msp_config\<close> and \<open>.telemetry\<close>.\<close>

definition virtual_heater_config :: "EntityIndexData \<Rightarrow> error + MSPVirtualHeater" where
  "virtual_heater_config d =
     (case msp_config d of VirtualHeaterConfig c \<Rightarrow> Inr c | _ \<Rightarrow> Inl AttributeError)"

definition virtual_heater_telemetry :: "EntityIndexData \<Rightarrow> error + TelemetryVirtualHeater" where
  "virtual_heater_telemetry d =
     (case telemetry d of VirtualHeaterTelemetry t \<Rightarrow> Inr t | _ \<Rightarrow> Inl AttributeError)"

definition heater_equip_config :: "EntityIndexData \<Rightarrow> error + MSPHeaterEquip" where
  "heater_equip_config d =
     (case msp_config d of HeaterEquipConfig c \<Rightarrow> Inr c | _ \<Rightarrow> Inl AttributeError)"

definition heater_telemetry :: "EntityIndexData \<Rightarrow> error + TelemetryHeater" where
  "heater_telemetry d =
     (case telemetry d of HeaterTelemetry t \<Rightarrow> Inr t | _ \<Rightarrow> Inl AttributeError)"

definition bow_water_temp :: "telemetry_t \<Rightarrow> error + int" where
  "bow_water_temp t = (case t of BoWTelemetry b \<Rightarrow> Inr (water_temp b) | _ \<Rightarrow> Inl AttributeError)"

subsection \<open>The members inherited from the base entity (entity.py)\<close>

text \<open>
  Modelled from the spec: the property \<open>data\<close> of the base class \<open>OmniLogicEntity\<close>
  (entity.py) is missing from the sources. The spec has the adapter read "current device
  state from a shared, externally maintained state tree (keyed by integer device
  identifiers)", the virtual heater being "identified by its own system-id": \<open>data\<close> is
  the entry of the tree under the entity's system id.
\<close>

definition data :: "EntityIndexData action" where
  "data = and_then (gets coordinator_data) (\<lambda>d.
          and_then (gets system_id) (\<lambda>i. lift (subscript d i)))"

text \<open>
  Modelled from the spec: the method \<open>get_telemetry_by_systemid\<close> of the base class is
  missing from the sources. The spec has the measured temperature "read from the parent
  body-of-water's telemetry": the method returns the telemetry of the entry under the
  given system id.
\<close>

definition get_telemetry_by_systemid :: "int \<Rightarrow> telemetry_t action" where
  "get_telemetry_by_systemid i =
     and_then (gets coordinator_data) (\<lambda>d.
     and_then (lift (subscript d i)) (\<lambda>e. ret (telemetry e)))"

text \<open>
  Modelled from the spec: the method \<open>get_system_config\<close> of the base class is missing
  from the sources. The spec has the unit "chosen from system-level configuration (not
  per-entity)": its \<open>units\<close> is one value of the shared state.
\<close>

definition get_system_config_units :: "string action" where
  "get_system_config_units = gets system_units"

text \<open>
  Modelled from the spec: the property \<open>extra_state_attributes\<close> of the base class is
  missing from the sources. The spec lists as extended attributes the solar set-point and
  the groups of the heating elements and nothing else, and has an empty list of elements
  yield "a dict with just the solar set-point key": the inherited dict is empty.
\<close>

definition super_extra_state_attributes :: "attributes action" where
  "super_extra_state_attributes = ret Map.empty"

text \<open>
  Modelled from the spec: the method \<open>set_telemetry\<close> of the base class is missing from
  the sources. The spec has a command "overwrite the corresponding field(s) in the locally
  cached telemetry record" of the entity, the set-point with the truncated integer, and
  "set local telemetry enabled flag to truthy" on heat, where the source passes
  \<open>{"enabled": "yes"}\<close>, and "to falsy" on off, where the source passes
  \<open>{"enabled": "no"}\<close>. The two dict literals of the source are the two updates; the
  flag stored for a string is whether it is \<open>yes\<close>.
\<close>

datatype telemetry_update = Upd_current_set_point int | Upd_enabled string

definition apply_update :: "telemetry_update \<Rightarrow> TelemetryVirtualHeater \<Rightarrow> TelemetryVirtualHeater" where
  "apply_update u t =
     (case u of
        Upd_current_set_point n \<Rightarrow> t\<lparr>current_set_point := n\<rparr>
      | Upd_enabled v \<Rightarrow> t\<lparr>enabled := (v = ''yes'')\<rparr>)"

definition set_telemetry :: "telemetry_update \<Rightarrow> unit action" where
  "set_telemetry u =
     and_then data (\<lambda>d.
     and_then (lift (virtual_heater_telemetry d)) (\<lambda>t.
     and_then (gets system_id) (\<lambda>i.
       modify (\<lambda>s. s\<lparr>coordinator_data :=
                        (coordinator_data s)(i \<mapsto> d\<lparr>telemetry := VirtualHeaterTelemetry (apply_update u t)\<rparr>)\<rparr>))))"

subsection \<open>The read path\<close>

definition temperature_unit :: "UnitOfTemperature action" where
  "temperature_unit =
     and_then get_system_config_units (\<lambda>u. ret (if u = ''Metric'' then CELSIUS else FAHRENHEIT))"

definition min_temp_prop :: "int action" where
  "min_temp_prop = and_then data (\<lambda>d. and_then (lift (virtual_heater_config d)) (\<lambda>c. ret (min_temp c)))"

definition max_temp_prop :: "int action" where
  "max_temp_prop = and_then data (\<lambda>d. and_then (lift (virtual_heater_config d)) (\<lambda>c. ret (max_temp c)))"

definition target_temperature :: "int action" where
  "target_temperature =
     and_then data (\<lambda>d. and_then (lift (virtual_heater_telemetry d)) (\<lambda>t. ret (current_set_point t)))"

definition current_temperature :: "int option action" where
  "current_temperature =
     and_then (gets bow_id) (\<lambda>b.
     and_then (get_telemetry_by_systemid b) (\<lambda>t.
     and_then (lift (bow_water_temp t)) (\<lambda>current_temp.
       ret (if current_temp \<noteq> - 1 then Some current_temp else None))))"

definition hvac_mode :: "HVACMode option action" where
  "hvac_mode =
     and_then data (\<lambda>d. and_then (lift (virtual_heater_telemetry d)) (\<lambda>t.
       ret (if enabled t then Some HVACMode.HEAT else Some HVACMode.OFF)))"

definition hvac_action :: "HVACAction action" where
  "hvac_action =
     and_then hvac_mode (\<lambda>m.
       if m = Some HVACMode.HEAT then ret HVACAction.HEATING else ret HVACAction.OFF)"

definition current_operation :: "string action" where
  "current_operation =
     and_then data (\<lambda>d. and_then (lift (virtual_heater_telemetry d)) (\<lambda>t.
       ret (if enabled t then STATE_ON else STATE_OFF)))"

text \<open>
  \<open>extra_state_attributes\<close>. The dict literal of the loop body, for the element
  \<open>system_id\<close> with configuration \<open>c\<close> and telemetry \<open>t\<close>:
\<close>

definition prefix :: "MSPHeaterEquip \<Rightarrow> string" where
  "prefix c = ''omni_heater_'' @ lower (equip_name c)"

definition equipment_attributes ::
  "(HeaterState \<Rightarrow> string) \<Rightarrow> int \<Rightarrow> MSPHeaterEquip \<Rightarrow> TelemetryHeater \<Rightarrow> attributes" where
  "equipment_attributes pretty sid c t =
     [prefix c @ ''_enabled'' \<mapsto> ABool (equip_enabled c),
      prefix c @ ''_system_id'' \<mapsto> AInt sid,
      prefix c @ ''_bow_id'' \<mapsto> AInt (equip_bow_id c),
      prefix c @ ''_state'' \<mapsto> AStr (pretty (state t)),
      prefix c @ ''_sensor_temp'' \<mapsto> AInt (temp t)]"

text \<open>The loop over \<open>self.heater_equipment_ids\<close>; \<open>d1 | d2\<close> on dicts is \<open>d1 ++ d2\<close>.\<close>

primrec equipment_loop :: "(HeaterState \<Rightarrow> string) \<Rightarrow> int list \<Rightarrow> attributes \<Rightarrow> attributes action" where
  "equipment_loop pretty [] acc = ret acc"
| "equipment_loop pretty (sid # ids) acc =
     and_then (gets coordinator_data) (\<lambda>d.
     and_then (lift (subscript d sid)) (\<lambda>heater_equipment.
     and_then (lift (heater_equip_config heater_equipment)) (\<lambda>c.
     and_then (lift (heater_telemetry heater_equipment)) (\<lambda>t.
       equipment_loop pretty ids (acc ++ equipment_attributes pretty sid c t)))))"

definition extra_state_attributes :: "(HeaterState \<Rightarrow> string) \<Rightarrow> attributes action" where
  "extra_state_attributes pretty =
     and_then super_extra_state_attributes (\<lambda>base.
     and_then data (\<lambda>d.
     and_then (lift (virtual_heater_config d)) (\<lambda>c.
     and_then (gets heater_equipment_ids) (\<lambda>ids.
       equipment_loop pretty ids (base ++ [''solar_set_point'' \<mapsto> AInt (solar_set_point c)])))))"

subsection \<open>The write path\<close>

text \<open>
  The command API of the device library is external: \<open>api c\<close> is \<open>None\<close> when the call
  \<open>c\<close> completes and \<open>Some msg\<close> when it raises. Awaiting a call records it and then
  returns or raises accordingly.
\<close>

definition omni_api :: "(api_call \<Rightarrow> string option) \<Rightarrow> api_call \<Rightarrow> unit action" where
  "omni_api api c =
     and_then (modify (\<lambda>s. s\<lparr>api_calls := api_calls s @ [c]\<rparr>)) (\<lambda>_.
       case api c of None \<Rightarrow> ret () | Some msg \<Rightarrow> raise (External msg))"

definition logger_error :: "string \<Rightarrow> HVACMode \<Rightarrow> unit action" where
  "logger_error fmt arg = modify (\<lambda>s. s\<lparr>log_records := log_records s @ [Log_error fmt arg]\<rparr>)"

definition async_write_ha_state :: "unit action" where
  "async_write_ha_state = modify (\<lambda>s. s\<lparr>ha_state_writes := Suc (ha_state_writes s)\<rparr>)"

text \<open>
  \<open>async_set_temperature\<close>: the arguments of the call are evaluated from left to right,
  \<open>int(kwargs[ATTR_TEMPERATURE])\<close> before \<open>self.temperature_unit\<close>, and
  \<open>int(kwargs[ATTR_TEMPERATURE])\<close> once more for the telemetry.
\<close>

definition async_set_temperature ::
  "(api_call \<Rightarrow> string option) \<Rightarrow> (string \<rightharpoonup> pynum) \<Rightarrow> unit action" where
  "async_set_temperature api kwargs =
     and_then (gets bow_id) (\<lambda>b.
     and_then (gets system_id) (\<lambda>i.
     and_then (lift (subscript kwargs ATTR_TEMPERATURE)) (\<lambda>v.
     and_then (lift (py_int v)) (\<lambda>n.
     and_then temperature_unit (\<lambda>u.
     and_then (omni_api api (Set_heater b i n u)) (\<lambda>_.
     and_then (lift (subscript kwargs ATTR_TEMPERATURE)) (\<lambda>v'.
     and_then (lift (py_int v')) (\<lambda>n'.
       set_telemetry (Upd_current_set_point n')))))))))"

definition async_set_hvac_mode :: "(api_call \<Rightarrow> string option) \<Rightarrow> HVACMode \<Rightarrow> unit action" where
  "async_set_hvac_mode api mode =
     (if mode = HVACMode.HEAT then
        and_then (modify (\<lambda>s. s\<lparr>hvac_mode_attr := Some HVACMode.HEAT\<rparr>)) (\<lambda>_.
        and_then (gets bow_id) (\<lambda>b.
        and_then (gets system_id) (\<lambda>i.
        and_then (omni_api api (Set_heater_enable b i True)) (\<lambda>_.
        and_then (set_telemetry (Upd_enabled ''yes'')) (\<lambda>_.
          async_write_ha_state)))))
      else if mode = HVACMode.OFF then
        and_then (modify (\<lambda>s. s\<lparr>hvac_mode_attr := Some HVACMode.OFF\<rparr>)) (\<lambda>_.
        and_then (gets bow_id) (\<lambda>b.
        and_then (gets system_id) (\<lambda>i.
        and_then (omni_api api (Set_heater_enable b i False)) (\<lambda>_.
        and_then (set_telemetry (Upd_enabled ''no'')) (\<lambda>_.
          async_write_ha_state)))))
      else logger_error ''Unrecognized hvac mode: %s'' mode)"

subsection \<open>A small installation\<close>

text \<open>
  A pool (system id 1) with one virtual heater (2) and two pieces of heating equipment
  (3 and 4), the concrete input of the instances below.
\<close>

definition pool_tree :: "int \<rightharpoonup> EntityIndexData" where
  "pool_tree =
     [1 \<mapsto> \<lparr>msp_config = OtherConfig, telemetry = BoWTelemetry \<lparr>water_temp = 27\<rparr>\<rparr>,
      2 \<mapsto> \<lparr>msp_config = VirtualHeaterConfig \<lparr>min_temp = 18, max_temp = 40, solar_set_point = 32\<rparr>,
             telemetry = VirtualHeaterTelemetry \<lparr>current_set_point = 29, enabled = True\<rparr>\<rparr>,
      3 \<mapsto> \<lparr>msp_config = HeaterEquipConfig \<lparr>equip_name = ''Gas'', equip_enabled = True, equip_bow_id = 1\<rparr>,
             telemetry = HeaterTelemetry \<lparr>state = HeaterState 1, temp = 30\<rparr>\<rparr>,
      4 \<mapsto> \<lparr>msp_config = HeaterEquipConfig \<lparr>equip_name = ''Solar'', equip_enabled = False, equip_bow_id = 1\<rparr>,
             telemetry = HeaterTelemetry \<lparr>state = HeaterState 0, temp = 25\<rparr>\<rparr>]"

definition pool_heater :: entity where
  "pool_heater =
     \<lparr>coordinator_data = pool_tree, system_units = ''Metric'', system_id = 2, bow_id = 1,
      heater_equipment_ids = [3, 4], hvac_mode_attr = None,
      api_calls = [], log_records = [], ha_state_writes = 0\<rparr>"

text \<open>The same installation with the heater switched off in the telemetry.\<close>

definition pool_heater_off :: entity where
  "pool_heater_off =
     pool_heater\<lparr>coordinator_data := pool_tree(2 \<mapsto>
       \<lparr>msp_config = VirtualHeaterConfig \<lparr>min_temp = 18, max_temp = 40, solar_set_point = 32\<rparr>,
        telemetry = VirtualHeaterTelemetry \<lparr>current_set_point = 29, enabled = False\<rparr>\<rparr>)\<rparr>"

text \<open>A command API on which every call completes, and one on which every call raises.\<close>

definition api_ok :: "api_call \<Rightarrow> string option" where
  "api_ok c = None"

definition api_down :: "api_call \<Rightarrow> string option" where
  "api_down c = Some ''timed out''"

subsection \<open>Vocabulary of the properties of the extended attributes\<close>








section \<open>Properties\<close>

lemmas action_defs = ret_def raise_def and_then_def gets_def modify_def lift_def subscript_def

text \<open>
  C1. Where the entity's entry in the cached tree is a virtual heater with telemetry
  \<open>t\<close>, \<open>hvac_mode\<close> is HEAT and \<open>hvac_action\<close> is HEATING if the enabled flag of
  \<open>t\<close> is true, and they are OFF and OFF if it is false. In every state whatsoever, a
  mode that is returned is HEAT or OFF and an action that is returned is HEATING or OFF.
\<close>

theorem hvac_mode_action_by_enabled:
  assumes "coordinator_data s (system_id s) = Some d"
    and "telemetry d = VirtualHeaterTelemetry t"
  shows "(enabled t \<longrightarrow> fst (hvac_mode s) = Inr (Some HVACMode.HEAT)
                      \<and> fst (hvac_action s) = Inr HVACAction.HEATING)
       \<and> (\<not> enabled t \<longrightarrow> fst (hvac_mode s) = Inr (Some HVACMode.OFF)
                      \<and> fst (hvac_action s) = Inr HVACAction.OFF)
       \<and> (\<forall>s' m. fst (hvac_mode s') = Inr m \<longrightarrow> m = Some HVACMode.HEAT \<or> m = Some HVACMode.OFF)
       \<and> (\<forall>s' a. fst (hvac_action s') = Inr a \<longrightarrow> a = HVACAction.HEATING \<or> a = HVACAction.OFF)"
proof -
  have m: "hvac_mode s = (Inr (Some (if enabled t then HVACMode.HEAT else HVACMode.OFF)), s)"
    using assms by (simp add: hvac_mode_def data_def virtual_heater_telemetry_def action_defs)
  have a: "hvac_action s = (Inr (if enabled t then HVACAction.HEATING else HVACAction.OFF), s)"
    using m by (simp add: hvac_action_def action_defs)
  have rm: "\<forall>s' m. fst (hvac_mode s') = Inr m \<longrightarrow> m = Some HVACMode.HEAT \<or> m = Some HVACMode.OFF"
    by (auto simp: hvac_mode_def data_def virtual_heater_telemetry_def action_defs
             split: option.splits telemetry_t.splits if_splits)
  have ra: "\<forall>s' a. fst (hvac_action s') = Inr a \<longrightarrow> a = HVACAction.HEATING \<or> a = HVACAction.OFF"
    by (auto simp: hvac_action_def action_defs split: prod.splits sum.splits if_splits)
  from m a rm ra show ?thesis by simp
qed

theorem hvac_mode_action_by_enabled_witness:
  "fst (hvac_mode pool_heater) = Inr (Some HVACMode.HEAT)
   \<and> fst (hvac_action pool_heater) = Inr HVACAction.HEATING
   \<and> fst (hvac_mode pool_heater_off) = Inr (Some HVACMode.OFF)
   \<and> fst (hvac_action pool_heater_off) = Inr HVACAction.OFF"
proof -
  have on: "coordinator_data pool_heater (system_id pool_heater) =
      Some \<lparr>msp_config = VirtualHeaterConfig \<lparr>min_temp = 18, max_temp = 40, solar_set_point = 32\<rparr>,
            telemetry = VirtualHeaterTelemetry \<lparr>current_set_point = 29, enabled = True\<rparr>\<rparr>"
    by (simp add: pool_heater_def pool_tree_def)
  have off: "coordinator_data pool_heater_off (system_id pool_heater_off) =
      Some \<lparr>msp_config = VirtualHeaterConfig \<lparr>min_temp = 18, max_temp = 40, solar_set_point = 32\<rparr>,
            telemetry = VirtualHeaterTelemetry \<lparr>current_set_point = 29, enabled = False\<rparr>\<rparr>"
    by (simp add: pool_heater_off_def pool_heater_def)
  show ?thesis
    using hvac_mode_action_by_enabled [OF on, of "\<lparr>current_set_point = 29, enabled = True\<rparr>"]
          hvac_mode_action_by_enabled [OF off, of "\<lparr>current_set_point = 29, enabled = False\<rparr>"]
    by simp
qed

lemma set_telemetry_eq:
  "set_telemetry u s =
     (case coordinator_data s (system_id s) of
        None \<Rightarrow> (Inl KeyError, s)
      | Some d \<Rightarrow>
          (case telemetry d of
             VirtualHeaterTelemetry t \<Rightarrow>
               (Inr (), s\<lparr>coordinator_data :=
                   (coordinator_data s)(system_id s \<mapsto> d\<lparr>telemetry := VirtualHeaterTelemetry (apply_update u t)\<rparr>)\<rparr>)
           | _ \<Rightarrow> (Inl AttributeError, s)))"
  by (simp add: set_telemetry_def data_def virtual_heater_telemetry_def action_defs
           split: option.split telemetry_t.split)

lemma hvac_mode_eq:
  "hvac_mode s =
     (case coordinator_data s (system_id s) of
        None \<Rightarrow> (Inl KeyError, s)
      | Some d \<Rightarrow>
          (case telemetry d of
             VirtualHeaterTelemetry t \<Rightarrow>
               (Inr (Some (if enabled t then HVACMode.HEAT else HVACMode.OFF)), s)
           | _ \<Rightarrow> (Inl AttributeError, s)))"
  by (simp add: hvac_mode_def data_def virtual_heater_telemetry_def action_defs
           split: option.split telemetry_t.split)

text \<open>
  C2. When \<open>async_set_hvac_mode\<close> returns normally on HEAT, \<open>hvac_mode\<close> read in the
  state it leaves is HEAT; when it returns normally on OFF, \<open>hvac_mode\<close> read in the
  state it leaves is OFF. No refresh of the tree lies between the command and the read.
  The command does return normally where the entity's entry is a virtual heater and the
  call to the command API completes.
\<close>

theorem set_hvac_mode_then_read:
  "(fst (async_set_hvac_mode api HVACMode.HEAT s) = Inr () \<longrightarrow>
      fst (hvac_mode (snd (async_set_hvac_mode api HVACMode.HEAT s))) = Inr (Some HVACMode.HEAT))
   \<and> (fst (async_set_hvac_mode api HVACMode.OFF s) = Inr () \<longrightarrow>
      fst (hvac_mode (snd (async_set_hvac_mode api HVACMode.OFF s))) = Inr (Some HVACMode.OFF))
   \<and> (coordinator_data s (system_id s) = Some d \<and> telemetry d = VirtualHeaterTelemetry t
        \<and> api (Set_heater_enable (bow_id s) (system_id s) True) = None \<longrightarrow>
      fst (async_set_hvac_mode api HVACMode.HEAT s) = Inr ())
   \<and> (coordinator_data s (system_id s) = Some d \<and> telemetry d = VirtualHeaterTelemetry t
        \<and> api (Set_heater_enable (bow_id s) (system_id s) False) = None \<longrightarrow>
      fst (async_set_hvac_mode api HVACMode.OFF s) = Inr ())"
  by (auto simp: async_set_hvac_mode_def omni_api_def async_write_ha_state_def
        set_telemetry_eq hvac_mode_eq apply_update_def action_defs
      split: option.splits telemetry_t.splits)

theorem set_hvac_mode_then_read_witness:
  "fst (hvac_mode pool_heater_off) = Inr (Some HVACMode.OFF)
   \<and> fst (async_set_hvac_mode api_ok HVACMode.HEAT pool_heater_off) = Inr ()
   \<and> fst (hvac_mode (snd (async_set_hvac_mode api_ok HVACMode.HEAT pool_heater_off))) = Inr (Some HVACMode.HEAT)
   \<and> fst (hvac_mode pool_heater) = Inr (Some HVACMode.HEAT)
   \<and> fst (async_set_hvac_mode api_ok HVACMode.OFF pool_heater) = Inr ()
   \<and> fst (hvac_mode (snd (async_set_hvac_mode api_ok HVACMode.OFF pool_heater))) = Inr (Some HVACMode.OFF)"
proof -
  let ?on = "\<lparr>current_set_point = 29, enabled = True\<rparr>"
  let ?off = "\<lparr>current_set_point = 29, enabled = False\<rparr>"
  let ?cfg = "VirtualHeaterConfig \<lparr>min_temp = 18, max_temp = 40, solar_set_point = 32\<rparr>"
  have d1: "coordinator_data pool_heater_off (system_id pool_heater_off) =
      Some \<lparr>msp_config = ?cfg, telemetry = VirtualHeaterTelemetry ?off\<rparr>"
    by (simp add: pool_heater_off_def pool_heater_def)
  have d2: "coordinator_data pool_heater (system_id pool_heater) =
      Some \<lparr>msp_config = ?cfg, telemetry = VirtualHeaterTelemetry ?on\<rparr>"
    by (simp add: pool_heater_def pool_tree_def)
  have r1: "fst (hvac_mode pool_heater_off) = Inr (Some HVACMode.OFF)"
    by (simp add: hvac_mode_eq d1)
  have r2: "fst (hvac_mode pool_heater) = Inr (Some HVACMode.HEAT)"
    by (simp add: hvac_mode_eq d2)
  note heat = set_hvac_mode_then_read
      [where api = api_ok and s = pool_heater_off and t = ?off
         and d = "\<lparr>msp_config = ?cfg, telemetry = VirtualHeaterTelemetry ?off\<rparr>"]
  note off = set_hvac_mode_then_read
      [where api = api_ok and s = pool_heater and t = ?on
         and d = "\<lparr>msp_config = ?cfg, telemetry = VirtualHeaterTelemetry ?on\<rparr>"]
  from heat d1 have h: "fst (async_set_hvac_mode api_ok HVACMode.HEAT pool_heater_off) = Inr ()"
    by (simp add: api_ok_def)
  from off d2 have o: "fst (async_set_hvac_mode api_ok HVACMode.OFF pool_heater) = Inr ()"
    by (simp add: api_ok_def)
  from heat h have h': "fst (hvac_mode (snd (async_set_hvac_mode api_ok HVACMode.HEAT pool_heater_off)))
      = Inr (Some HVACMode.HEAT)"
    by blast
  from off o have o': "fst (hvac_mode (snd (async_set_hvac_mode api_ok HVACMode.OFF pool_heater)))
      = Inr (Some HVACMode.OFF)"
    by blast
  from r1 h h' r2 o o' show ?thesis
    by blast
qed

text \<open>
  C3. On a mode that is neither HEAT nor OFF, \<open>async_set_hvac_mode\<close> returns normally,
  and the state it leaves is the state it found with one more log record: no call to the
  command API, the tree and every adapter field unchanged, no request to write the state.
\<close>

theorem set_hvac_mode_unrecognized:
  assumes "mode \<noteq> HVACMode.HEAT" and "mode \<noteq> HVACMode.OFF"
  shows "async_set_hvac_mode api mode s =
           (Inr (), s\<lparr>log_records := log_records s @ [Log_error ''Unrecognized hvac mode: %s'' mode]\<rparr>)
       \<and> api_calls (snd (async_set_hvac_mode api mode s)) = api_calls s
       \<and> coordinator_data (snd (async_set_hvac_mode api mode s)) = coordinator_data s
       \<and> hvac_mode_attr (snd (async_set_hvac_mode api mode s)) = hvac_mode_attr s
       \<and> ha_state_writes (snd (async_set_hvac_mode api mode s)) = ha_state_writes s"
  using assms by (simp add: async_set_hvac_mode_def logger_error_def action_defs)

theorem set_hvac_mode_unrecognized_witness:
  "HVACMode.COOL \<noteq> HVACMode.HEAT \<and> HVACMode.COOL \<noteq> HVACMode.OFF
   \<and> async_set_hvac_mode api_ok HVACMode.COOL pool_heater =
       (Inr (), pool_heater\<lparr>log_records := [Log_error ''Unrecognized hvac mode: %s'' HVACMode.COOL]\<rparr>)"
  using set_hvac_mode_unrecognized [of HVACMode.COOL api_ok pool_heater]
  by (simp add: pool_heater_def)

text \<open>
  C9. Without a \<open>temperature\<close> entry in the keyword arguments,
  \<open>async_set_temperature\<close> raises KeyError and leaves the state as it found it: no call
  to the command API has been made and no telemetry written.
\<close>

theorem set_temperature_missing_key:
  assumes "kwargs ATTR_TEMPERATURE = None"
  shows "async_set_temperature api kwargs s = (Inl KeyError, s)"
  using assms by (simp add: async_set_temperature_def action_defs)

theorem set_temperature_missing_key_witness:
  "[''hvac_mode'' \<mapsto> PInt 1] ATTR_TEMPERATURE = None
   \<and> async_set_temperature api_ok [''hvac_mode'' \<mapsto> PInt 1] pool_heater = (Inl KeyError, pool_heater)"
proof -
  have k: "[''hvac_mode'' \<mapsto> PInt 1] ATTR_TEMPERATURE = None"
    by (simp add: ATTR_TEMPERATURE_def)
  show ?thesis
    using k set_temperature_missing_key
        [where kwargs = "[''hvac_mode'' \<mapsto> PInt 1]" and api = api_ok and s = pool_heater]
    by simp
qed

text \<open>
  C5. Where the entry of the parent body of water has the raw water temperature \<open>w\<close>,
  \<open>current_temperature\<close> is None exactly when \<open>w = -1\<close>, and is \<open>w\<close> itself for every
  other \<open>w\<close>.
\<close>

theorem current_temperature_sentinel:
  assumes "coordinator_data s (bow_id s) = Some d"
    and "telemetry d = BoWTelemetry b"
  shows "(fst (current_temperature s) = Inr None \<longleftrightarrow> water_temp b = - 1)
       \<and> (water_temp b \<noteq> - 1 \<longrightarrow> fst (current_temperature s) = Inr (Some (water_temp b)))"
  using assms
  by (simp add: current_temperature_def get_telemetry_by_systemid_def bow_water_temp_def action_defs)


theorem current_temperature_sentinel_witness:
  "fst (current_temperature pool_heater) = Inr (Some 27)
   \<and> fst (current_temperature
        (pool_heater\<lparr>coordinator_data := pool_tree(1 \<mapsto>
           \<lparr>msp_config = OtherConfig, telemetry = BoWTelemetry \<lparr>water_temp = - 1\<rparr>\<rparr>)\<rparr>)) = Inr None"
proof -
  have a: "coordinator_data pool_heater (bow_id pool_heater) =
      Some \<lparr>msp_config = OtherConfig, telemetry = BoWTelemetry \<lparr>water_temp = 27\<rparr>\<rparr>"
    by (simp add: pool_heater_def pool_tree_def)
  let ?s = "pool_heater\<lparr>coordinator_data := pool_tree(1 \<mapsto>
           \<lparr>msp_config = OtherConfig, telemetry = BoWTelemetry \<lparr>water_temp = - 1\<rparr>\<rparr>)\<rparr>"
  have b: "coordinator_data ?s (bow_id ?s) =
      Some \<lparr>msp_config = OtherConfig, telemetry = BoWTelemetry \<lparr>water_temp = - 1\<rparr>\<rparr>"
    by (simp add: pool_heater_def)
  show ?thesis
    using current_temperature_sentinel [OF a, of "\<lparr>water_temp = 27\<rparr>"]
          current_temperature_sentinel [OF b, of "\<lparr>water_temp = - 1\<rparr>"]
    by simp
qed

lemma truncate_rat_bounds:
  "\<bar>of_int (truncate_rat q)\<bar> \<le> \<bar>q\<bar> \<and> \<bar>q\<bar> < \<bar>of_int (truncate_rat q)\<bar> + 1"
  unfolding truncate_rat_def by (cases "0 \<le> q") (simp_all, linarith+)

text \<open>
  C6. On a finite float \<open>q\<close>, with the command API completing, \<open>async_set_temperature\<close>
  sends \<open>q\<close> truncated towards zero to the API and stores the same integer as the cached
  set-point, which the next read of \<open>target_temperature\<close> returns. Nothing in the
  hypotheses relates \<open>q\<close> to \<open>min_temp\<close> or \<open>max_temp\<close>: there is no check against
  them. The instance below is 21.7 (the double nearest to it), sent and stored as 21, and
  104.5 with a maximum of 40, sent and stored as 104.
\<close>

theorem set_temperature_truncates:
  assumes "kwargs ATTR_TEMPERATURE = Some (PFloat (Finite q))"
    and "coordinator_data s (system_id s) = Some d"
    and "telemetry d = VirtualHeaterTelemetry t"
    and "api (Set_heater (bow_id s) (system_id s) (truncate_rat q)
               (if system_units s = ''Metric'' then CELSIUS else FAHRENHEIT)) = None"
  shows "async_set_temperature api kwargs s =
           (Inr (), s\<lparr>coordinator_data := (coordinator_data s)(system_id s \<mapsto>
                          d\<lparr>telemetry := VirtualHeaterTelemetry (t\<lparr>current_set_point := truncate_rat q\<rparr>)\<rparr>),
                        api_calls := api_calls s @
                          [Set_heater (bow_id s) (system_id s) (truncate_rat q)
                             (if system_units s = ''Metric'' then CELSIUS else FAHRENHEIT)]\<rparr>)
       \<and> fst (target_temperature (snd (async_set_temperature api kwargs s))) = Inr (truncate_rat q)
       \<and> \<bar>of_int (truncate_rat q)\<bar> \<le> \<bar>q\<bar> \<and> \<bar>q\<bar> < \<bar>of_int (truncate_rat q)\<bar> + 1"
proof -
  have run: "async_set_temperature api kwargs s =
           (Inr (), s\<lparr>coordinator_data := (coordinator_data s)(system_id s \<mapsto>
                          d\<lparr>telemetry := VirtualHeaterTelemetry (t\<lparr>current_set_point := truncate_rat q\<rparr>)\<rparr>),
                        api_calls := api_calls s @
                          [Set_heater (bow_id s) (system_id s) (truncate_rat q)
                             (if system_units s = ''Metric'' then CELSIUS else FAHRENHEIT)]\<rparr>)"
    using assms
    by (simp add: async_set_temperature_def temperature_unit_def get_system_config_units_def
          omni_api_def set_telemetry_eq apply_update_def action_defs)
  have rd: "fst (target_temperature (snd (async_set_temperature api kwargs s))) = Inr (truncate_rat q)"
    unfolding run
    by (simp add: target_temperature_def data_def virtual_heater_telemetry_def action_defs)
  from run rd truncate_rat_bounds [of q] show ?thesis by simp
qed


theorem set_temperature_truncates_witness:
  "async_set_temperature api_ok
       [ATTR_TEMPERATURE \<mapsto> PFloat (Finite (6108006994621235 / 281474976710656))] pool_heater =
     (Inr (), pool_heater\<lparr>coordinator_data := pool_tree(2 \<mapsto>
          \<lparr>msp_config = VirtualHeaterConfig \<lparr>min_temp = 18, max_temp = 40, solar_set_point = 32\<rparr>,
           telemetry = VirtualHeaterTelemetry \<lparr>current_set_point = 21, enabled = True\<rparr>\<rparr>),
        api_calls := [Set_heater 1 2 21 CELSIUS]\<rparr>)
   \<and> async_set_temperature api_ok [ATTR_TEMPERATURE \<mapsto> PFloat (Finite (209 / 2))] pool_heater =
     (Inr (), pool_heater\<lparr>coordinator_data := pool_tree(2 \<mapsto>
          \<lparr>msp_config = VirtualHeaterConfig \<lparr>min_temp = 18, max_temp = 40, solar_set_point = 32\<rparr>,
           telemetry = VirtualHeaterTelemetry \<lparr>current_set_point = 104, enabled = True\<rparr>\<rparr>),
        api_calls := [Set_heater 1 2 104 CELSIUS]\<rparr>)"
proof -
  let ?d = "\<lparr>msp_config = VirtualHeaterConfig \<lparr>min_temp = 18, max_temp = 40, solar_set_point = 32\<rparr>,
            telemetry = VirtualHeaterTelemetry \<lparr>current_set_point = 29, enabled = True\<rparr>\<rparr>"
  let ?t = "\<lparr>current_set_point = 29, enabled = True\<rparr>"
  have d: "coordinator_data pool_heater (system_id pool_heater) = Some ?d"
    by (simp add: pool_heater_def pool_tree_def)
  have t: "telemetry ?d = VirtualHeaterTelemetry ?t"
    by simp
  have ids: "bow_id pool_heater = 1" "system_id pool_heater = 2" "api_calls pool_heater = []"
    "system_units pool_heater = ''Metric''" "coordinator_data pool_heater = pool_tree"
    by (simp_all add: pool_heater_def)
  have t1: "truncate_rat (6108006994621235 / 281474976710656) = 21"
    by (simp add: truncate_rat_def floor_eq_iff)
  have t2: "truncate_rat (209 / 2) = 104"
    by (simp add: truncate_rat_def floor_eq_iff)
  have a: "api_ok (Set_heater (bow_id pool_heater) (system_id pool_heater) n
              (if system_units pool_heater = ''Metric'' then CELSIUS else FAHRENHEIT)) = None" for n
    by (simp add: api_ok_def)
  have k: "[ATTR_TEMPERATURE \<mapsto> PFloat (Finite q)] ATTR_TEMPERATURE = Some (PFloat (Finite q))" for q
    by simp
  have w: "async_set_temperature api_ok [ATTR_TEMPERATURE \<mapsto> PFloat (Finite q)] pool_heater =
      (Inr (), pool_heater\<lparr>coordinator_data := pool_tree(2 \<mapsto>
          \<lparr>msp_config = VirtualHeaterConfig \<lparr>min_temp = 18, max_temp = 40, solar_set_point = 32\<rparr>,
           telemetry = VirtualHeaterTelemetry \<lparr>current_set_point = truncate_rat q, enabled = True\<rparr>\<rparr>),
        api_calls := [Set_heater 1 2 (truncate_rat q) CELSIUS]\<rparr>)" for q
    using set_temperature_truncates
      [where api = api_ok and s = pool_heater and d = ?d and t = ?t and q = q
         and kwargs = "[ATTR_TEMPERATURE \<mapsto> PFloat (Finite q)]", OF k d t a]
    by (simp add: ids)
  show ?thesis
    using w [of "6108006994621235 / 281474976710656"] w [of "209 / 2"] by (simp only: t1 t2)
qed


text \<open>
  C4, as stated, fails: \<open>async_set_hvac_mode\<close> assigns \<open>self._hvac_mode\<close> before it
  awaits the command API, so when the call raises, that field of the entity has changed.
\<close>

theorem set_hvac_mode_failure_counterexample:
  "fst (async_set_hvac_mode api_down HVACMode.HEAT pool_heater_off) = Inl (External ''timed out'')
   \<and> hvac_mode_attr pool_heater_off = None
   \<and> hvac_mode_attr (snd (async_set_hvac_mode api_down HVACMode.HEAT pool_heater_off)) = Some HVACMode.HEAT"
  by (simp add: async_set_hvac_mode_def omni_api_def action_defs api_down_def
        pool_heater_off_def pool_heater_def)

text \<open>
  C4, amended. When the call to the command API raises, the exception propagates and the
  device state tree is as it was; \<open>async_set_temperature\<close> then leaves every adapter
  field as it was too, while \<open>async_set_hvac_mode\<close> has assigned the requested mode to
  \<open>self._hvac_mode\<close>. For both commands, a tree that differs after the command means
  that the one call made to the command API completed.
\<close>

theorem commands_on_api_failure:
  "(kwargs ATTR_TEMPERATURE = Some v \<and> py_int v = Inr n
      \<and> api (Set_heater (bow_id s) (system_id s) n
               (if system_units s = ''Metric'' then CELSIUS else FAHRENHEIT)) = Some msg \<longrightarrow>
      async_set_temperature api kwargs s =
        (Inl (External msg),
         s\<lparr>api_calls := api_calls s @
              [Set_heater (bow_id s) (system_id s) n
                 (if system_units s = ''Metric'' then CELSIUS else FAHRENHEIT)]\<rparr>))
   \<and> (api (Set_heater_enable (bow_id s) (system_id s) True) = Some msg \<longrightarrow>
      async_set_hvac_mode api HVACMode.HEAT s =
        (Inl (External msg),
         s\<lparr>hvac_mode_attr := Some HVACMode.HEAT,
            api_calls := api_calls s @ [Set_heater_enable (bow_id s) (system_id s) True]\<rparr>))
   \<and> (api (Set_heater_enable (bow_id s) (system_id s) False) = Some msg \<longrightarrow>
      async_set_hvac_mode api HVACMode.OFF s =
        (Inl (External msg),
         s\<lparr>hvac_mode_attr := Some HVACMode.OFF,
            api_calls := api_calls s @ [Set_heater_enable (bow_id s) (system_id s) False]\<rparr>))
   \<and> (coordinator_data (snd (async_set_temperature api kwargs s)) \<noteq> coordinator_data s \<longrightarrow>
      (\<exists>c. api c = None \<and> api_calls (snd (async_set_temperature api kwargs s)) = api_calls s @ [c]))
   \<and> (coordinator_data (snd (async_set_hvac_mode api mode s)) \<noteq> coordinator_data s \<longrightarrow>
      (\<exists>c. api c = None \<and> api_calls (snd (async_set_hvac_mode api mode s)) = api_calls s @ [c]))"
proof -
  have t: "kwargs ATTR_TEMPERATURE = Some v \<and> py_int v = Inr n
      \<and> api (Set_heater (bow_id s) (system_id s) n
               (if system_units s = ''Metric'' then CELSIUS else FAHRENHEIT)) = Some msg \<longrightarrow>
      async_set_temperature api kwargs s =
        (Inl (External msg),
         s\<lparr>api_calls := api_calls s @
              [Set_heater (bow_id s) (system_id s) n
                 (if system_units s = ''Metric'' then CELSIUS else FAHRENHEIT)]\<rparr>)"
    by (simp add: async_set_temperature_def temperature_unit_def get_system_config_units_def
          omni_api_def action_defs)
  have h: "api (Set_heater_enable (bow_id s) (system_id s) True) = Some msg \<longrightarrow>
      async_set_hvac_mode api HVACMode.HEAT s =
        (Inl (External msg),
         s\<lparr>hvac_mode_attr := Some HVACMode.HEAT,
            api_calls := api_calls s @ [Set_heater_enable (bow_id s) (system_id s) True]\<rparr>)"
    by (simp add: async_set_hvac_mode_def omni_api_def action_defs)
  have o: "api (Set_heater_enable (bow_id s) (system_id s) False) = Some msg \<longrightarrow>
      async_set_hvac_mode api HVACMode.OFF s =
        (Inl (External msg),
         s\<lparr>hvac_mode_attr := Some HVACMode.OFF,
            api_calls := api_calls s @ [Set_heater_enable (bow_id s) (system_id s) False]\<rparr>)"
    by (simp add: async_set_hvac_mode_def omni_api_def action_defs)
  have ct: "coordinator_data (snd (async_set_temperature api kwargs s)) \<noteq> coordinator_data s \<longrightarrow>
      (\<exists>c. api c = None \<and> api_calls (snd (async_set_temperature api kwargs s)) = api_calls s @ [c])"
    by (auto simp: async_set_temperature_def temperature_unit_def get_system_config_units_def
          omni_api_def set_telemetry_eq action_defs
        split: option.splits sum.splits telemetry_t.splits)
  have cm: "coordinator_data (snd (async_set_hvac_mode api mode s)) \<noteq> coordinator_data s \<longrightarrow>
      (\<exists>c. api c = None \<and> api_calls (snd (async_set_hvac_mode api mode s)) = api_calls s @ [c])"
    by (auto simp: async_set_hvac_mode_def omni_api_def set_telemetry_eq
          async_write_ha_state_def logger_error_def action_defs
        split: option.splits sum.splits telemetry_t.splits)
  from t h o ct cm show ?thesis by blast
qed

theorem commands_on_api_failure_witness:
  "async_set_temperature api_down [ATTR_TEMPERATURE \<mapsto> PInt 30] pool_heater =
     (Inl (External ''timed out''), pool_heater\<lparr>api_calls := [Set_heater 1 2 30 CELSIUS]\<rparr>)
   \<and> async_set_hvac_mode api_down HVACMode.HEAT pool_heater =
     (Inl (External ''timed out''),
      pool_heater\<lparr>hvac_mode_attr := Some HVACMode.HEAT, api_calls := [Set_heater_enable 1 2 True]\<rparr>)
   \<and> async_set_hvac_mode api_down HVACMode.OFF pool_heater =
     (Inl (External ''timed out''),
      pool_heater\<lparr>hvac_mode_attr := Some HVACMode.OFF, api_calls := [Set_heater_enable 1 2 False]\<rparr>)
   \<and> coordinator_data (snd (async_set_temperature api_ok [ATTR_TEMPERATURE \<mapsto> PInt 30] pool_heater))
       \<noteq> coordinator_data pool_heater
   \<and> (\<exists>c. api_ok c = None
        \<and> api_calls (snd (async_set_temperature api_ok [ATTR_TEMPERATURE \<mapsto> PInt 30] pool_heater)) =
            api_calls pool_heater @ [c])
   \<and> coordinator_data (snd (async_set_hvac_mode api_ok HVACMode.OFF pool_heater))
       \<noteq> coordinator_data pool_heater
   \<and> (\<exists>c. api_ok c = None
        \<and> api_calls (snd (async_set_hvac_mode api_ok HVACMode.OFF pool_heater)) =
            api_calls pool_heater @ [c])"
proof -
  have ids: "bow_id pool_heater = 1" "system_id pool_heater = 2" "api_calls pool_heater = []"
    "system_units pool_heater = ''Metric''"
    by (simp_all add: pool_heater_def)
  have k: "[ATTR_TEMPERATURE \<mapsto> PInt 30] ATTR_TEMPERATURE = Some (PInt 30)" "py_int (PInt 30) = Inr 30"
    by simp_all
  have down: "api_down c = Some ''timed out''" for c
    by (simp add: api_down_def)
  have ct: "coordinator_data (snd (async_set_temperature api_ok [ATTR_TEMPERATURE \<mapsto> PInt 30] pool_heater)) 2
      \<noteq> coordinator_data pool_heater 2"
    by (simp add: async_set_temperature_def temperature_unit_def get_system_config_units_def
          omni_api_def set_telemetry_eq apply_update_def action_defs api_ok_def
          pool_heater_def pool_tree_def)
  have cm: "coordinator_data (snd (async_set_hvac_mode api_ok HVACMode.OFF pool_heater)) 2
      \<noteq> coordinator_data pool_heater 2"
    by (simp add: async_set_hvac_mode_def omni_api_def set_telemetry_eq apply_update_def
          async_write_ha_state_def action_defs api_ok_def pool_heater_def pool_tree_def)
  from ct have ct': "coordinator_data (snd (async_set_temperature api_ok [ATTR_TEMPERATURE \<mapsto> PInt 30] pool_heater))
      \<noteq> coordinator_data pool_heater"
    by auto
  from cm have cm': "coordinator_data (snd (async_set_hvac_mode api_ok HVACMode.OFF pool_heater))
      \<noteq> coordinator_data pool_heater"
    by auto
  note fail = commands_on_api_failure
      [where api = api_down and s = pool_heater and kwargs = "[ATTR_TEMPERATURE \<mapsto> PInt 30]"
         and v = "PInt 30" and n = 30 and msg = "''timed out''"]
  note ok = commands_on_api_failure
      [where api = api_ok and s = pool_heater and kwargs = "[ATTR_TEMPERATURE \<mapsto> PInt 30]"
         and mode = HVACMode.OFF]
  have f1: "async_set_temperature api_down [ATTR_TEMPERATURE \<mapsto> PInt 30] pool_heater =
     (Inl (External ''timed out''), pool_heater\<lparr>api_calls := [Set_heater 1 2 30 CELSIUS]\<rparr>)"
    using fail k down by (simp add: ids)
  have f2: "async_set_hvac_mode api_down HVACMode.HEAT pool_heater =
     (Inl (External ''timed out''),
      pool_heater\<lparr>hvac_mode_attr := Some HVACMode.HEAT, api_calls := [Set_heater_enable 1 2 True]\<rparr>)"
    using fail down by (simp add: ids)
  have f3: "async_set_hvac_mode api_down HVACMode.OFF pool_heater =
     (Inl (External ''timed out''),
      pool_heater\<lparr>hvac_mode_attr := Some HVACMode.OFF, api_calls := [Set_heater_enable 1 2 False]\<rparr>)"
    using fail down by (simp add: ids)
  have o1: "\<exists>c. api_ok c = None
        \<and> api_calls (snd (async_set_temperature api_ok [ATTR_TEMPERATURE \<mapsto> PInt 30] pool_heater)) =
            api_calls pool_heater @ [c]"
    using ok ct' by blast
  have o2: "\<exists>c. api_ok c = None
        \<and> api_calls (snd (async_set_hvac_mode api_ok HVACMode.OFF pool_heater)) =
            api_calls pool_heater @ [c]"
    using ok cm' by blast
  from f1 f2 f3 ct' o1 cm' o2 show ?thesis by blast
qed

lemma equipment_loop_frame: "snd (equipment_loop pretty ids acc s) = s"
  by (induction ids arbitrary: acc)
     (simp_all add: action_defs heater_equip_config_def heater_telemetry_def
        split: option.split msp_config_t.split telemetry_t.split)

text \<open>
  C10. Each of the nine read properties returns the state it was given: the device state
  tree, the adapter's fields and the records of calls, log and state writes are unchanged.
\<close>

theorem reads_leave_state:
  "snd (temperature_unit s) = s
   \<and> snd (min_temp_prop s) = s
   \<and> snd (max_temp_prop s) = s
   \<and> snd (target_temperature s) = s
   \<and> snd (current_temperature s) = s
   \<and> snd (hvac_mode s) = s
   \<and> snd (hvac_action s) = s
   \<and> snd (current_operation s) = s
   \<and> snd (extra_state_attributes pretty s) = s"
proof -
  have 1: "snd (temperature_unit s) = s"
    by (simp add: temperature_unit_def get_system_config_units_def action_defs)
  have 2: "snd (min_temp_prop s) = s"
    by (simp add: min_temp_prop_def data_def virtual_heater_config_def action_defs
          split: option.split msp_config_t.split)
  have 3: "snd (max_temp_prop s) = s"
    by (simp add: max_temp_prop_def data_def virtual_heater_config_def action_defs
          split: option.split msp_config_t.split)
  have 4: "snd (target_temperature s) = s"
    by (simp add: target_temperature_def data_def virtual_heater_telemetry_def action_defs
          split: option.split telemetry_t.split)
  have 5: "snd (current_temperature s) = s"
    by (simp add: current_temperature_def get_telemetry_by_systemid_def bow_water_temp_def action_defs
          split: option.split telemetry_t.split)
  have 6: "snd (hvac_mode s) = s"
    by (simp add: hvac_mode_eq split: option.split telemetry_t.split)
  have 7: "snd (hvac_action s) = s"
    by (simp add: hvac_action_def hvac_mode_eq action_defs split: option.split telemetry_t.split)
  have 8: "snd (current_operation s) = s"
    by (simp add: current_operation_def data_def virtual_heater_telemetry_def action_defs
          split: option.split telemetry_t.split)
  have 9: "snd (extra_state_attributes pretty s) = s"
    by (simp add: extra_state_attributes_def super_extra_state_attributes_def data_def
          virtual_heater_config_def action_defs equipment_loop_frame
          split: option.split msp_config_t.split)
  from 1 2 3 4 5 6 7 8 9 show ?thesis by simp
qed


subsection \<open>The extended attributes\<close>
























end
